theory Spec2Isabelle
  imports Complex_Main
begin

section \<open>The GST calculator (gst\_app.py)\<close>

text \<open>
  The program computes with Python floats. They are modelled by \<^typ>\<open>real\<close>: every
  arithmetic operation is exact, and the special values (infinities, NaN) and the rounding
  of binary floating point are outside the model. What Python raises is a value of
  \<open>py_error\<close>: a result is \<open>Inr\<close> of the returned tuple, or \<open>Inl\<close> of the exception.
\<close>

subsection \<open>Python arithmetic\<close>

datatype py_error = ZeroDivisionError

text \<open>Float division \<^verbatim>\<open>a / b\<close>: raises on a zero divisor.\<close>

definition py_div :: "real \<Rightarrow> real \<Rightarrow> py_error + real" where
  "py_div a b = (if b = 0 then Inl ZeroDivisionError else Inr (a / b))"

text \<open>
  The builtin \<^verbatim>\<open>round(x)\<close> with one argument: the nearest integer, and the even one of
  the two when \<open>x\<close> is half-way between them.
\<close>

definition py_round :: "real \<Rightarrow> int" where
  "py_round x =
     (let f = \<lfloor>x\<rfloor>; d = x - of_int f
      in if d < 1 / 2 then f
         else if 1 / 2 < d then f + 1
         else if even f then f else f + 1)"

text \<open>
  Truth value of the \<^verbatim>\<open>rounding\<close> argument in \<^verbatim>\<open>if rounding:\<close>. The caller passes
  \<^verbatim>\<open>None\<close>, \<^verbatim>\<open>1.0\<close> or \<^verbatim>\<open>0.5\<close>; \<^verbatim>\<open>None\<close> and \<^verbatim>\<open>0.0\<close> are false.
\<close>

fun truthy :: "real option \<Rightarrow> bool" where
  "truthy None = False"
| "truthy (Some r) = (r \<noteq> 0)"

text \<open>
  The expression \<^verbatim>\<open>round(x / rounding) * rounding\<close>, which the three conversions apply
  to each quantity they round: an integer times a float.
\<close>

definition round_to :: "real \<Rightarrow> real \<Rightarrow> py_error + real" where
  "round_to x r =
     (case py_div x r of
        Inl e \<Rightarrow> Inl e
      | Inr q \<Rightarrow> Inr (of_int (py_round q) * r))"

subsection \<open>The three conversions\<close>

text \<open>Returns \<^verbatim>\<open>(base, gst, cgst, sgst, total_price)\<close>.\<close>

definition calc_from_included ::
  "real \<Rightarrow> real \<Rightarrow> real option \<Rightarrow> py_error + (real \<times> real \<times> real \<times> real \<times> real)" where
  "calc_from_included total_price rate0 rounding =
     (let rate = (if rate0 < 0 then 0 else rate0)
      in case py_div total_price (1 + rate) of
           Inl e \<Rightarrow> Inl e
         | Inr base0 \<Rightarrow>
             (let gst0 = total_price - base0
              in if truthy rounding
                 then (case round_to base0 (the rounding) of
                         Inl e \<Rightarrow> Inl e
                       | Inr base \<Rightarrow>
                           (case round_to gst0 (the rounding) of
                              Inl e \<Rightarrow> Inl e
                            | Inr gst \<Rightarrow> Inr (base, gst, gst / 2, gst / 2, total_price)))
                 else Inr (base0, gst0, gst0 / 2, gst0 / 2, total_price)))"

text \<open>Returns \<^verbatim>\<open>(total, gst, cgst, sgst, base_price)\<close>.\<close>

definition calc_from_excluded ::
  "real \<Rightarrow> real \<Rightarrow> real option \<Rightarrow> py_error + (real \<times> real \<times> real \<times> real \<times> real)" where
  "calc_from_excluded base_price rate rounding =
     (let gst0 = base_price * rate;
          total0 = base_price + gst0
      in if truthy rounding
         then (case round_to gst0 (the rounding) of
                 Inl e \<Rightarrow> Inl e
               | Inr gst \<Rightarrow>
                   (case round_to total0 (the rounding) of
                      Inl e \<Rightarrow> Inl e
                    | Inr total' \<Rightarrow> Inr (total', gst, gst / 2, gst / 2, base_price)))
         else Inr (total0, gst0, gst0 / 2, gst0 / 2, base_price))"

text \<open>Returns \<^verbatim>\<open>(base, total, cgst, sgst, gst_amount)\<close>.\<close>

definition calc_from_gst_amount ::
  "real \<Rightarrow> real \<Rightarrow> real option \<Rightarrow> py_error + (real \<times> real \<times> real \<times> real \<times> real)" where
  "calc_from_gst_amount gst_amount rate rounding =
     (case (if rate \<noteq> 0 then py_div gst_amount rate else Inr 0) of
        Inl e \<Rightarrow> Inl e
      | Inr base0 \<Rightarrow>
          (let total0 = base0 + gst_amount
           in if truthy rounding
              then (case round_to base0 (the rounding) of
                      Inl e \<Rightarrow> Inl e
                    | Inr base \<Rightarrow>
                        (case round_to total0 (the rounding) of
                           Inl e \<Rightarrow> Inl e
                         | Inr total' \<Rightarrow>
                             Inr (base, total', gst_amount / 2, gst_amount / 2, gst_amount)))
              else Inr (base0, total0, gst_amount / 2, gst_amount / 2, gst_amount)))"

subsection \<open>The history kept in the session\<close>

text \<open>
  A history entry is the dictionary the handlers build, with the keys \<^verbatim>\<open>timestamp\<close>,
  \<^verbatim>\<open>mode\<close>, \<^verbatim>\<open>rate_pct\<close>, \<^verbatim>\<open>base\<close>, \<^verbatim>\<open>gst\<close>, \<^verbatim>\<open>cgst\<close>, \<^verbatim>\<open>sgst\<close> and \<^verbatim>\<open>total\<close>
  (the fields carry the prefix \<open>e_\<close>). Strings are the bytes of their UTF-8 encoding.
\<close>

record entry =
  e_timestamp :: string
  e_mode :: string
  e_rate_pct :: int
  e_base :: real
  e_gst :: real
  e_cgst :: real
  e_sgst :: real
  e_total :: real

text \<open>
  \<^verbatim>\<open>st.session_state\<close>: the key \<^verbatim>\<open>history\<close> is absent (\<open>None\<close>) until the first write.
\<close>

record session_state =
  history :: "entry list option"

definition add_history :: "entry \<Rightarrow> session_state \<Rightarrow> session_state" where
  "add_history entry st =
     (let st1 = (if history st = None then st\<lparr>history := Some []\<rparr> else st);
          st2 = st1\<lparr>history := map_option (\<lambda>h. entry # h) (history st1)\<rparr>
      in st2\<lparr>history := map_option (take 10) (history st2)\<rparr>)"

text \<open>The button \<^verbatim>\<open>Clear History\<close>: \<^verbatim>\<open>st.session_state.history = []\<close>.\<close>

definition clear_history :: "session_state \<Rightarrow> session_state" where
  "clear_history st = st\<lparr>history := Some []\<rparr>"

text \<open>
  The CSV export hands the list to pandas; \<open>to_csv\<close> stands for
  \<^verbatim>\<open>pd.DataFrame(h).to_csv(index=False).encode("utf-8")\<close>.
\<close>

definition history_to_csv :: "(entry list \<Rightarrow> string) \<Rightarrow> session_state \<Rightarrow> string option" where
  "history_to_csv to_csv st =
     (case history st of
        None \<Rightarrow> None
      | Some h \<Rightarrow> if h = [] then None else Some (to_csv h))"

text \<open>The rupee sign U+20B9 in UTF-8, and \<^verbatim>\<open>"\n".join(lines)\<close>.\<close>

definition rupee :: string where
  "rupee = [CHR 0xE2, CHR 0x82, CHR 0xB9]"

fun join_lines :: "string list \<Rightarrow> string" where
  "join_lines [] = []"
| "join_lines [l] = l"
| "join_lines (l # ls) = l @ [CHR 0x0A] @ join_lines ls"

text \<open>
  One line of the text export. \<open>fmt2\<close> stands for the float format \<^verbatim>\<open>:.2f\<close> and
  \<open>str_int\<close> for the decimal digits of an integer.
\<close>

definition txt_line :: "(real \<Rightarrow> string) \<Rightarrow> (int \<Rightarrow> string) \<Rightarrow> entry \<Rightarrow> string" where
  "txt_line fmt2 str_int item =
     e_timestamp item @ '' | '' @ e_mode item
     @ '' | Rate: '' @ str_int (e_rate_pct item) @ ''%''
     @ '' | Base: '' @ rupee @ fmt2 (e_base item)
     @ '' | GST: '' @ rupee @ fmt2 (e_gst item)
     @ '' | CGST: '' @ rupee @ fmt2 (e_cgst item)
     @ '' | SGST: '' @ rupee @ fmt2 (e_sgst item)
     @ '' | Total: '' @ rupee @ fmt2 (e_total item)"

definition history_to_txt ::
  "(real \<Rightarrow> string) \<Rightarrow> (int \<Rightarrow> string) \<Rightarrow> session_state \<Rightarrow> string option" where
  "history_to_txt fmt2 str_int st =
     (case history st of
        None \<Rightarrow> None
      | Some h \<Rightarrow> if h = [] then None else Some (join_lines (map (txt_line fmt2 str_int) h)))"

subsection \<open>The button handlers\<close>

text \<open>
  What a handler puts on the page: the five numbers of a result (the page prints them
  with two decimals), or the error message of \<^verbatim>\<open>st.error\<close>.
\<close>

datatype ui_out =
  Shown "real \<times> real \<times> real \<times> real \<times> real"
| Error_shown string

definition mode_excl :: string where
  "mode_excl = ''Excl '' @ [CHR 0xE2, CHR 0x86, CHR 0x92] @ '' Incl''"

definition mode_incl :: string where
  "mode_incl = ''Incl '' @ [CHR 0xE2, CHR 0x86, CHR 0x92] @ '' Excl''"

definition mode_reverse :: string where
  "mode_reverse = ''Reverse (GST'' @ [CHR 0xE2, CHR 0x86, CHR 0x92] @ ''Base)''"

text \<open>
  Each handler takes the time stamp \<open>now\<close>, the selected \<open>rate_pct\<close>, the number typed in
  and the selected rounding; \<^verbatim>\<open>rate = rate_pct / 100.0\<close>.
\<close>

definition calculate_excl_gst ::
  "string \<Rightarrow> int \<Rightarrow> real \<Rightarrow> real option \<Rightarrow> session_state \<Rightarrow> py_error + (ui_out \<times> session_state)" where
  "calculate_excl_gst now rate_pct base_input rounding st =
     (case calc_from_excluded base_input (of_int rate_pct / 100) rounding of
        Inl e \<Rightarrow> Inl e
      | Inr (total', gst_amount, cgst, sgst, base_price) \<Rightarrow>
          Inr (Shown (total', gst_amount, cgst, sgst, base_price),
               add_history
                 \<lparr>e_timestamp = now, e_mode = mode_excl, e_rate_pct = rate_pct,
                  e_base = base_price, e_gst = gst_amount, e_cgst = cgst, e_sgst = sgst,
                  e_total = total'\<rparr> st))"

definition calculate_incl_gst ::
  "string \<Rightarrow> int \<Rightarrow> real \<Rightarrow> real option \<Rightarrow> session_state \<Rightarrow> py_error + (ui_out \<times> session_state)" where
  "calculate_incl_gst now rate_pct total_input rounding st =
     (case calc_from_included total_input (of_int rate_pct / 100) rounding of
        Inl e \<Rightarrow> Inl e
      | Inr (base, gst_amount, cgst, sgst, total_price) \<Rightarrow>
          Inr (Shown (base, gst_amount, cgst, sgst, total_price),
               add_history
                 \<lparr>e_timestamp = now, e_mode = mode_incl, e_rate_pct = rate_pct,
                  e_base = base, e_gst = gst_amount, e_cgst = cgst, e_sgst = sgst,
                  e_total = total_price\<rparr> st))"

definition calculate_from_gst_amount ::
  "string \<Rightarrow> int \<Rightarrow> real \<Rightarrow> real option \<Rightarrow> session_state \<Rightarrow> py_error + (ui_out \<times> session_state)" where
  "calculate_from_gst_amount now rate_pct gst_input rounding st =
     (let rate = of_int rate_pct / 100
      in if rate = 0
         then Inr (Error_shown ''GST rate must be > 0 for Reverse calculation.'', st)
         else (case calc_from_gst_amount gst_input rate rounding of
                 Inl e \<Rightarrow> Inl e
               | Inr (base, total', cgst, sgst, gst_amount) \<Rightarrow>
                   Inr (Shown (base, total', cgst, sgst, gst_amount),
                        add_history
                          \<lparr>e_timestamp = now, e_mode = mode_reverse, e_rate_pct = rate_pct,
                           e_base = base, e_gst = gst_amount, e_cgst = cgst, e_sgst = sgst,
                           e_total = total'\<rparr> st)))"

text \<open>The history as a list: empty while the key is absent.\<close>

definition ledger :: "session_state \<Rightarrow> entry list" where
  "ledger st = (case history st of None \<Rightarrow> [] | Some h \<Rightarrow> h)"

subsection \<open>A session as a sequence of clicks\<close>

text \<open>
  Every change of the history comes from one of four buttons. A click that raises ends
  the run with the exception.
\<close>

datatype ui_event =
  Clear_History
| Calculate_Excl string int real "real option"
| Calculate_Incl string int real "real option"
| Calculate_From_GST string int real "real option"

fun click :: "ui_event \<Rightarrow> session_state \<Rightarrow> py_error + session_state" where
  "click Clear_History st = Inr (clear_history st)"
| "click (Calculate_Excl now rate_pct x rounding) st =
     map_sum id snd (calculate_excl_gst now rate_pct x rounding st)"
| "click (Calculate_Incl now rate_pct x rounding) st =
     map_sum id snd (calculate_incl_gst now rate_pct x rounding st)"
| "click (Calculate_From_GST now rate_pct x rounding) st =
     map_sum id snd (calculate_from_gst_amount now rate_pct x rounding st)"

fun clicks :: "ui_event list \<Rightarrow> session_state \<Rightarrow> py_error + session_state" where
  "clicks [] st = Inr st"
| "clicks (ev # evs) st =
     (case click ev st of Inl e \<Rightarrow> Inl e | Inr st' \<Rightarrow> clicks evs st')"

text \<open>The session starts without the key \<^verbatim>\<open>history\<close>.\<close>

definition session_start :: session_state where
  "session_start = \<lparr>history = None\<rparr>"

section \<open>Properties\<close>

subsection \<open>Arithmetic helpers\<close>

lemma py_div_nonzero: "b \<noteq> 0 \<Longrightarrow> py_div a b = Inr (a / b)"
  by (simp add: py_div_def)

lemma round_to_nonzero: "r \<noteq> 0 \<Longrightarrow> round_to x r = Inr (of_int (py_round (x / r)) * r)"
  by (simp add: round_to_def py_div_nonzero)

lemma truthy_the: "truthy rounding \<Longrightarrow> the rounding \<noteq> 0"
  by (cases rounding) simp_all

lemma calc_from_excluded_plain:
  "\<not> truthy rounding \<Longrightarrow>
   calc_from_excluded base_price rate rounding =
     Inr (base_price + base_price * rate, base_price * rate,
          base_price * rate / 2, base_price * rate / 2, base_price)"
  by (simp add: calc_from_excluded_def Let_def)

lemma calc_from_excluded_rounded:
  "truthy rounding \<Longrightarrow>
   calc_from_excluded base_price rate rounding =
     (let r = the rounding;
          gst = of_int (py_round (base_price * rate / r)) * r;
          total' = of_int (py_round ((base_price + base_price * rate) / r)) * r
      in Inr (total', gst, gst / 2, gst / 2, base_price))"
  by (simp add: calc_from_excluded_def Let_def round_to_nonzero truthy_the)

lemma calc_from_included_plain:
  "\<not> truthy rounding \<Longrightarrow>
   calc_from_included total_price rate rounding =
     (let base = total_price / (1 + (if rate < 0 then 0 else rate));
          gst = total_price - base
      in Inr (base, gst, gst / 2, gst / 2, total_price))"
  by (simp add: calc_from_included_def Let_def py_div_nonzero)

lemma calc_from_included_rounded:
  "truthy rounding \<Longrightarrow>
   calc_from_included total_price rate rounding =
     (let r = the rounding;
          base0 = total_price / (1 + (if rate < 0 then 0 else rate));
          base = of_int (py_round (base0 / r)) * r;
          gst = of_int (py_round ((total_price - base0) / r)) * r
      in Inr (base, gst, gst / 2, gst / 2, total_price))"
  by (simp add: calc_from_included_def Let_def py_div_nonzero round_to_nonzero truthy_the)

lemma calc_from_gst_amount_plain:
  "\<not> truthy rounding \<Longrightarrow>
   calc_from_gst_amount gst_amount rate rounding =
     (let base = (if rate \<noteq> 0 then gst_amount / rate else 0)
      in Inr (base, base + gst_amount, gst_amount / 2, gst_amount / 2, gst_amount))"
  by (simp add: calc_from_gst_amount_def Let_def py_div_nonzero)

lemma calc_from_gst_amount_rounded:
  "truthy rounding \<Longrightarrow>
   calc_from_gst_amount gst_amount rate rounding =
     (let r = the rounding;
          base0 = (if rate \<noteq> 0 then gst_amount / rate else 0);
          base = of_int (py_round (base0 / r)) * r;
          total' = of_int (py_round ((base0 + gst_amount) / r)) * r
      in Inr (base, total', gst_amount / 2, gst_amount / 2, gst_amount))"
  by (simp add: calc_from_gst_amount_def Let_def py_div_nonzero round_to_nonzero truthy_the)




subsection \<open>History helpers\<close>

lemma ledger_add_history: "ledger (add_history entry st) = take 10 (entry # ledger st)"
  by (cases "history st") (simp_all add: add_history_def ledger_def Let_def)

lemma ledger_clear_history: "ledger (clear_history st) = []"
  by (simp add: clear_history_def ledger_def)

lemma take_10_cons_take_10: "take 10 (x # take 10 xs) = take 10 (x # xs)"
  by (simp add: take_Cons')

lemma ledger_fold_add_history:
  "es \<noteq> [] \<Longrightarrow> ledger (fold add_history es st) = take 10 (rev es @ ledger st)"
proof (induction es rule: rev_induct)
  case Nil
  then show ?case by simp
next
  case (snoc e es)
  have step: "ledger (fold add_history (es @ [e]) st) =
                take 10 (e # ledger (fold add_history es st))"
    by (simp only: fold_append fold_simps comp_apply ledger_add_history)
  show ?case
  proof (cases "es = []")
    case True
    with step show ?thesis by simp
  next
    case False
    with snoc.IH have "ledger (fold add_history es st) = take 10 (rev es @ ledger st)"
      by simp
    with step have "ledger (fold add_history (es @ [e]) st) =
                      take 10 (e # take 10 (rev es @ ledger st))"
      by (simp only:)
    also have "\<dots> = take 10 (e # rev es @ ledger st)"
      by (rule take_10_cons_take_10)
    finally show ?thesis by simp
  qed
qed

lemma calc_from_excluded_returns: "\<exists>res. calc_from_excluded x rate rounding = Inr res"
  using calc_from_excluded_rounded [of rounding x rate] calc_from_excluded_plain [of rounding x rate]
  unfolding Let_def by metis

lemma calc_from_included_returns: "\<exists>res. calc_from_included x rate rounding = Inr res"
  using calc_from_included_rounded [of rounding x rate] calc_from_included_plain [of rounding x rate]
  unfolding Let_def by metis

lemma calc_from_gst_amount_returns: "\<exists>res. calc_from_gst_amount x rate rounding = Inr res"
  using calc_from_gst_amount_rounded [of rounding x rate] calc_from_gst_amount_plain [of rounding x rate]
  unfolding Let_def by metis

lemma length_ledger_add_history: "length (ledger (add_history entry st)) \<le> 10"
  by (simp add: ledger_add_history)

lemma click_bounded:
  assumes "length (ledger st) \<le> 10"
  shows "\<exists>st'. click ev st = Inr st' \<and> length (ledger st') \<le> 10"
proof (cases ev)
  case Clear_History
  then show ?thesis by (simp add: ledger_clear_history)
next
  case (Calculate_Excl now rate_pct x rounding)
  obtain res where "calc_from_excluded x (of_int rate_pct / 100) rounding = Inr res"
    using calc_from_excluded_returns by blast
  then show ?thesis
    using Calculate_Excl by (simp add: calculate_excl_gst_def length_ledger_add_history split: prod.splits)
next
  case (Calculate_Incl now rate_pct x rounding)
  obtain res where "calc_from_included x (of_int rate_pct / 100) rounding = Inr res"
    using calc_from_included_returns by blast
  then show ?thesis
    using Calculate_Incl by (simp add: calculate_incl_gst_def length_ledger_add_history split: prod.splits)
next
  case (Calculate_From_GST now rate_pct x rounding)
  obtain res where "calc_from_gst_amount x (of_int rate_pct / 100) rounding = Inr res"
    using calc_from_gst_amount_returns by blast
  then show ?thesis
    using Calculate_From_GST assms
    by (simp add: calculate_from_gst_amount_def length_ledger_add_history Let_def split: prod.splits)
qed

lemma clicks_bounded:
  "length (ledger st) \<le> 10 \<Longrightarrow> \<exists>st'. clicks evs st = Inr st' \<and> length (ledger st') \<le> 10"
proof (induction evs arbitrary: st)
  case Nil
  then show ?case by simp
next
  case (Cons ev evs)
  from click_bounded [OF Cons.prems, of ev]
  obtain st1 where st1: "click ev st = Inr st1" "length (ledger st1) \<le> 10"
    by blast
  from Cons.IH [OF st1(2)] show ?case
    by (simp add: st1(1))
qed

lemma ledger_session_start: "ledger session_start = []"
  by (simp add: session_start_def ledger_def)

subsection \<open>Conversion from the price excluding GST\<close>

text \<open>
  Claim C1. For every base \<open>\<ge> 0\<close> and rate \<open>\<ge> 0\<close>, with rounding disabled (\<^verbatim>\<open>None\<close>),
  \<open>calc_from_excluded\<close> returns without raising, and in the returned tuple the GST is
  \<open>base * rate\<close>, the total is \<open>base + gst\<close>, and the base is the input itself.
\<close>

theorem calc_from_excluded_no_rounding:
  assumes "0 \<le> base_price" and "0 \<le> rate"
  shows "calc_from_excluded base_price rate None =
           Inr (base_price + base_price * rate, base_price * rate,
                base_price * rate / 2, base_price * rate / 2, base_price)"
  by (simp add: calc_from_excluded_def Let_def)

theorem calc_from_excluded_no_rounding_witness:
  "(0::real) \<le> 100 \<and> (0::real) \<le> 18 / 100
   \<and> calc_from_excluded 100 (18 / 100) None = Inr (118, 18, 9, 9, 100)"
  using calc_from_excluded_no_rounding [of 100 "18 / 100"] by simp



subsection \<open>Conversion from the price including GST\<close>

text \<open>
  Claim C6. For every total \<open>\<ge> 0\<close>, a negative rate is replaced by 0, and with rounding
  disabled \<open>calc_from_included\<close> returns \<open>base = total / (1 + rate)\<close> and
  \<open>gst = total - base\<close>, without raising.
\<close>

theorem calc_from_included_no_rounding:
  assumes "0 \<le> total_price"
  shows "calc_from_included total_price rate None =
           (let rate' = (if rate < 0 then 0 else rate);
                base = total_price / (1 + rate');
                gst = total_price - base
            in Inr (base, gst, gst / 2, gst / 2, total_price))"
  by (simp add: calc_from_included_plain Let_def)

theorem calc_from_included_no_rounding_witness:
  "(0::real) \<le> 118
   \<and> calc_from_included 118 (18 / 100) None = Inr (100, 18, 9, 9, 118)
   \<and> calc_from_included 118 (- 1) None = Inr (118, 0, 0, 0, 118)"
  using calc_from_included_no_rounding [of 118 "18 / 100"]
    calc_from_included_no_rounding [of 118 "- 1"]
  by (simp add: Let_def)



text \<open>
  In exact arithmetic, converting a base price to a total and back gives the base price
  again. (What remains of this identity under the rounding errors of binary floating
  point is not expressed in this model.)
\<close>

lemma round_trip_exact:
  assumes "0 \<le> rate"
  shows "calc_from_included (base_price + base_price * rate) rate None =
           Inr (base_price, base_price * rate, base_price * rate / 2, base_price * rate / 2,
                base_price + base_price * rate)"
proof -
  from assms have "1 + rate \<noteq> 0" by simp
  then have "(base_price + base_price * rate) / (1 + rate) = base_price"
    by (simp add: field_simps)
  with assms show ?thesis
    by (simp add: calc_from_included_plain Let_def)
qed

subsection \<open>Conversion from the GST amount\<close>




text \<open>
  Claim C2, as the code has it. The rate 0 is rejected by the handler of the button
  \<^verbatim>\<open>Calculate from GST amount\<close>: it shows the error message, does not call
  \<open>calc_from_gst_amount\<close> and leaves the session state, so the history, as it was.
\<close>

theorem reverse_handler_rejects_zero_rate:
  assumes "real_of_int rate_pct / 100 = 0"
  shows "calculate_from_gst_amount now rate_pct gst_input rounding st =
           Inr (Error_shown ''GST rate must be > 0 for Reverse calculation.'', st)"
  using assms by (simp add: calculate_from_gst_amount_def)

theorem reverse_handler_rejects_zero_rate_witness:
  "real_of_int 0 / 100 = 0
   \<and> calculate_from_gst_amount ''2024-01-01 10:00:00'' 0 18 None \<lparr>history = Some []\<rparr> =
       Inr (Error_shown ''GST rate must be > 0 for Reverse calculation.'', \<lparr>history = Some []\<rparr>)"
  using reverse_handler_rejects_zero_rate [of 0 "''2024-01-01 10:00:00''" 18 None "\<lparr>history = Some []\<rparr>"]
  by simp

text \<open>
  The function itself signals nothing when the rate is 0: it returns a tuple with base 0.
\<close>

theorem calc_from_gst_amount_zero_rate_no_error_counterexample:
  "calc_from_gst_amount 18 0 None = Inr (0, 18, 9, 9, 18)
   \<and> \<not> isl (calc_from_gst_amount 18 0 None)"
  by (simp add: calc_from_gst_amount_def)

subsection \<open>The rounding policy\<close>



subsection \<open>The bounded history\<close>

text \<open>
  Claim C4. The history holds at most 10 entries after \<open>add_history\<close> and after
  clearing, whatever the state before, and after any sequence of clicks from the start of
  the session (none of which raises). Recording 11 entries in a row, from any state, leaves
  exactly 10: the 10 recorded last, the most recent first.
\<close>

theorem history_at_most_ten:
  "length (ledger (add_history entry st)) \<le> 10
   \<and> length (ledger (clear_history st)) \<le> 10
   \<and> (\<exists>st'. clicks evs session_start = Inr st' \<and> length (ledger st') \<le> 10)
   \<and> (length es = 11 \<longrightarrow>
        length (ledger (fold add_history es st)) = 10
        \<and> ledger (fold add_history es st) = take 10 (rev es))"
proof -
  have "\<exists>st'. clicks evs session_start = Inr st' \<and> length (ledger st') \<le> 10"
    by (rule clicks_bounded) (simp add: ledger_session_start)
  moreover have "length (ledger (fold add_history es st)) = 10
      \<and> ledger (fold add_history es st) = take 10 (rev es)" if "length es = 11"
  proof -
    from that have "es \<noteq> []" by auto
    then have "ledger (fold add_history es st) = take 10 (rev es @ ledger st)"
      by (rule ledger_fold_add_history)
    with that show ?thesis by simp
  qed
  ultimately show ?thesis
    by (simp add: length_ledger_add_history ledger_clear_history)
qed

theorem history_at_most_ten_witness:
  "length (map (\<lambda>n. \<lparr>e_timestamp = ''t'', e_mode = mode_excl, e_rate_pct = n, e_base = 100,
                       e_gst = 18, e_cgst = 9, e_sgst = 9, e_total = 118\<rparr>)
               [1, 2, 3, 4, 5, 6, 7, 8, 9, 10, 11]) = 11
   \<and> map e_rate_pct
        (ledger (fold add_history
           (map (\<lambda>n. \<lparr>e_timestamp = ''t'', e_mode = mode_excl, e_rate_pct = n, e_base = 100,
                       e_gst = 18, e_cgst = 9, e_sgst = 9, e_total = 118\<rparr>)
                [1, 2, 3, 4, 5, 6, 7, 8, 9, 10, 11])
           session_start))
      = [11, 10, 9, 8, 7, 6, 5, 4, 3, 2]"
  using history_at_most_ten [of
      "\<lparr>e_timestamp = ''t'', e_mode = mode_excl, e_rate_pct = 0, e_base = 100,
        e_gst = 18, e_cgst = 9, e_sgst = 9, e_total = 118\<rparr>" session_start "[]"
      "map (\<lambda>n. \<lparr>e_timestamp = ''t'', e_mode = mode_excl, e_rate_pct = n, e_base = 100,
                       e_gst = 18, e_cgst = 9, e_sgst = 9, e_total = 118\<rparr>)
                [1, 2, 3, 4, 5, 6, 7, 8, 9, 10, 11]"]
  by simp

text \<open>
  Claim C8. Clearing a history that is not empty leaves it with length 0, and both exports
  then return \<^verbatim>\<open>None\<close>. Both exports return \<^verbatim>\<open>None\<close> whenever the history is absent
  from the session or empty; the export functions have no path that raises there.
\<close>

theorem export_of_empty_history:
  "(ledger st \<noteq> [] \<longrightarrow> length (ledger (clear_history st)) = 0)
   \<and> history_to_csv to_csv (clear_history st) = None
   \<and> history_to_txt fmt2 str_int (clear_history st) = None
   \<and> (history st' = None \<or> history st' = Some [] \<longrightarrow>
        history_to_csv to_csv st' = None \<and> history_to_txt fmt2 str_int st' = None)"
proof -
  have "history (clear_history st) = Some []"
    by (simp add: clear_history_def)
  then have "history_to_csv to_csv (clear_history st) = None"
    and "history_to_txt fmt2 str_int (clear_history st) = None"
    by (simp_all add: history_to_csv_def history_to_txt_def)
  moreover have "history_to_csv to_csv st' = None \<and> history_to_txt fmt2 str_int st' = None"
    if "history st' = None \<or> history st' = Some []"
    using that by (auto simp: history_to_csv_def history_to_txt_def)
  ultimately show ?thesis
    by (simp add: ledger_clear_history)
qed

theorem export_of_empty_history_witness:
  "ledger \<lparr>history = Some [\<lparr>e_timestamp = ''t'', e_mode = mode_excl, e_rate_pct = 18,
                              e_base = 100, e_gst = 18, e_cgst = 9, e_sgst = 9, e_total = 118\<rparr>]\<rparr> \<noteq> []
   \<and> length (ledger (clear_history
        \<lparr>history = Some [\<lparr>e_timestamp = ''t'', e_mode = mode_excl, e_rate_pct = 18,
                              e_base = 100, e_gst = 18, e_cgst = 9, e_sgst = 9, e_total = 118\<rparr>]\<rparr>)) = 0
   \<and> history session_start = None
   \<and> history_to_csv (\<lambda>h. []) session_start = None
   \<and> history_to_txt (\<lambda>x. []) (\<lambda>n. []) session_start = None"
  using export_of_empty_history [of
      "\<lparr>history = Some [\<lparr>e_timestamp = ''t'', e_mode = mode_excl, e_rate_pct = 18,
                              e_base = 100, e_gst = 18, e_cgst = 9, e_sgst = 9, e_total = 118\<rparr>]\<rparr>"
      "\<lambda>h. []" "\<lambda>x. []" "\<lambda>n. []" session_start]
  by (simp add: ledger_def session_start_def)

end
